theory Spec2Isabelle
  imports Complex_Main
begin

section \<open>JavaScript values as the hooks see them\<close>

text \<open>
  The hooks receive frames through \<^verbatim>\<open>JSON.parse\<close> and treat every payload as
  \<^verbatim>\<open>any\<close>, so the payloads are modelled as dynamically typed values. Numbers are
  exact rationals or \<^verbatim>\<open>NaN\<close>; rounding and overflow of doubles are outside the model.
\<close>

datatype jsnum = Fin rat | NaN

datatype jsval =
    JUndefined
  | JNull
  | JBool bool
  | JNum jsnum
  | JStr string
  | JArr "jsval list"
  | JObj "(string \<times> jsval) list"

text \<open>The exception the modelled code can raise.\<close>

datatype js_error = TypeError

text \<open>
  Conversions between strings and numbers are built-ins of the JavaScript engine; they are
  parameters of the model.
\<close>

record js_runtime =
  parseInt :: "string \<Rightarrow> jsnum"
  stringToNumber :: "string \<Rightarrow> jsnum"
  numberToString :: "jsnum \<Rightarrow> string"

text \<open>Truthiness, as used by \<^verbatim>\<open>&&\<close>, \<^verbatim>\<open>||\<close>, \<^verbatim>\<open>?:\<close> and \<^verbatim>\<open>if\<close>.\<close>

fun truthy :: "jsval \<Rightarrow> bool" where
  "truthy JUndefined = False"
| "truthy JNull = False"
| "truthy (JBool b) = b"
| "truthy (JNum NaN) = False"
| "truthy (JNum (Fin q)) = (q \<noteq> 0)"
| "truthy (JStr s) = (s \<noteq> [])"
| "truthy (JArr xs) = True"
| "truthy (JObj ps) = True"

text \<open>\<^verbatim>\<open>a || b\<close>: the first operand when it is truthy, the second otherwise.\<close>

definition js_or :: "jsval \<Rightarrow> jsval \<Rightarrow> jsval" where
  "js_or a b = (if truthy a then a else b)"

fun js_typeof :: "jsval \<Rightarrow> string" where
  "js_typeof JUndefined = ''undefined''"
| "js_typeof JNull = ''object''"
| "js_typeof (JBool b) = ''boolean''"
| "js_typeof (JNum n) = ''number''"
| "js_typeof (JStr s) = ''string''"
| "js_typeof (JArr xs) = ''object''"
| "js_typeof (JObj ps) = ''object''"

fun isArray :: "jsval \<Rightarrow> bool" where
  "isArray (JArr xs) = True"
| "isArray v = False"

text \<open>
  \<^verbatim>\<open>key in v\<close>. The operator raises a TypeError when the right operand is not an object.
  The hooks only test the names \<^verbatim>\<open>symbol\<close>, \<^verbatim>\<open>positions\<close>, \<^verbatim>\<open>orders\<close>, \<^verbatim>\<open>message\<close> and
  \<^verbatim>\<open>timestamp\<close>: none is an array index, \<^verbatim>\<open>length\<close> or a prototype property, so an array
  has none of them and an object has one exactly when it is an own property.
\<close>

fun js_in :: "string \<Rightarrow> jsval \<Rightarrow> js_error + bool" where
  "js_in k (JObj ps) = Inr (k \<in> set (map fst ps))"
| "js_in k (JArr xs) = Inr False"
| "js_in k v = Inl TypeError"

text \<open>
  Property read \<^verbatim>\<open>v.key\<close> for the names the hooks read. Every read in the hooks is
  either guarded so that \<^verbatim>\<open>v\<close> is an object, or written \<^verbatim>\<open>v?.key\<close>, which yields
  \<^verbatim>\<open>undefined\<close> on \<^verbatim>\<open>null\<close> and \<^verbatim>\<open>undefined\<close>; primitives and arrays have none of the names.
\<close>

fun js_get :: "jsval \<Rightarrow> string \<Rightarrow> jsval" where
  "js_get (JObj ps) k = (case map_of ps k of None \<Rightarrow> JUndefined | Some v \<Rightarrow> v)"
| "js_get v k = JUndefined"

fun join_comma :: "string list \<Rightarrow> string" where
  "join_comma [] = []"
| "join_comma [s] = s"
| "join_comma (s # t # ss) = s @ '','' @ join_comma (t # ss)"

text \<open>The results of a list of conversions, or the first exception among them.\<close>

fun first_error :: "(js_error + 'a) list \<Rightarrow> js_error + 'a list" where
  "first_error [] = Inr []"
| "first_error (Inl e # rs) = Inl e"
| "first_error (Inr x # rs) =
     (case first_error rs of Inl e \<Rightarrow> Inl e | Inr xs \<Rightarrow> Inr (x # xs))"

text \<open>
  \<^verbatim>\<open>String(v)\<close>, which also gives the property key of a computed member \<^verbatim>\<open>[v]\<close>. An object
  is converted through its \<^verbatim>\<open>toString\<close> method and, failing that, its \<^verbatim>\<open>valueOf\<close> method. A
  parsed object inherits both; an own property of the name \<^verbatim>\<open>toString\<close> hides the inherited
  method and is never callable, and \<^verbatim>\<open>valueOf\<close> (own or inherited) yields no primitive, so the
  conversion raises a TypeError exactly when the object has an own \<^verbatim>\<open>toString\<close> property. An
  array is joined from the conversions of its elements and raises when one of them does.
\<close>

fun toString :: "js_runtime \<Rightarrow> jsval \<Rightarrow> js_error + string" where
  "toString rt JUndefined = Inr ''undefined''"
| "toString rt JNull = Inr ''null''"
| "toString rt (JBool b) = Inr (if b then ''true'' else ''false'')"
| "toString rt (JNum n) = Inr (numberToString rt n)"
| "toString rt (JStr s) = Inr s"
| "toString rt (JArr xs) =
     (case first_error
             (map (\<lambda>x. if x = JUndefined \<or> x = JNull then Inr [] else toString rt x) xs) of
        Inl e \<Rightarrow> Inl e
      | Inr ss \<Rightarrow> Inr (join_comma ss))"
| "toString rt (JObj ps) =
     (if ''toString'' \<in> set (map fst ps) then Inl TypeError else Inr ''[object Object]'')"

text \<open>
  \<^verbatim>\<open>Number(v)\<close>, the conversion applied to the operands of \<^verbatim>\<open>-\<close>. An object or array is
  converted through \<^verbatim>\<open>valueOf\<close>, which yields no primitive, and then through \<^verbatim>\<open>toString\<close>:
  it raises where the conversion to a string does.
\<close>

fun toNumber :: "js_runtime \<Rightarrow> jsval \<Rightarrow> js_error + jsnum" where
  "toNumber rt JUndefined = Inr NaN"
| "toNumber rt JNull = Inr (Fin 0)"
| "toNumber rt (JBool b) = Inr (Fin (if b then 1 else 0))"
| "toNumber rt (JNum n) = Inr n"
| "toNumber rt (JStr s) = Inr (stringToNumber rt s)"
| "toNumber rt (JArr xs) =
     (case toString rt (JArr xs) of Inl e \<Rightarrow> Inl e | Inr s \<Rightarrow> Inr (stringToNumber rt s))"
| "toNumber rt (JObj ps) =
     (case toString rt (JObj ps) of Inl e \<Rightarrow> Inl e | Inr s \<Rightarrow> Inr (stringToNumber rt s))"

fun js_sub :: "jsnum \<Rightarrow> jsnum \<Rightarrow> jsnum" where
  "js_sub (Fin a) (Fin b) = Fin (a - b)"
| "js_sub a b = NaN"

text \<open>Comparisons with \<^verbatim>\<open>NaN\<close> are false.\<close>

fun js_lt :: "jsnum \<Rightarrow> rat \<Rightarrow> bool" where
  "js_lt (Fin a) b = (a < b)"
| "js_lt NaN b = False"

section \<open>The enhanced hook: state, actions and reducer\<close>

text \<open>
  A parsed frame after the destructuring \<^verbatim>\<open>const { type, data } = message\<close>; a missing
  property is \<^verbatim>\<open>undefined\<close>.
\<close>

record message =
  msg_type :: jsval
  msg_data :: jsval

record WebSocketState =
  accountData :: jsval
  marketData :: "(string \<rightharpoonup> jsval) option"
  positions :: jsval
  orders :: jsval
  isConnected :: bool
  error :: jsval
  connectionAttempts :: nat
  lastMessageTime :: "int option"
  subscribedChannels :: "string set"
  latency :: jsnum
  messageBuffer :: "message list"

datatype WebSocketAction =
    CONNECTED
  | DISCONNECTED "string option"
  | RECONNECTING
  | MESSAGE message
  | SUBSCRIBE string
  | UNSUBSCRIBE string
  | UPDATE_LATENCY jsnum
  | BATCH_UPDATE "message list"

definition initialState :: WebSocketState where
  "initialState =
     \<lparr> accountData = JNull, marketData = None, positions = JNull, orders = JNull,
       isConnected = False, error = JNull, connectionAttempts = 0, lastMessageTime = None,
       subscribedChannels = {}, latency = Fin 0, messageBuffer = [] \<rparr>"

text \<open>
  The clock values one call reads: \<^verbatim>\<open>new Date()\<close> on entry to \<^verbatim>\<open>processMessage\<close> (or in
  the \<^verbatim>\<open>CONNECTED\<close> case) and \<^verbatim>\<open>Date.now()\<close> in the \<^verbatim>\<open>pong\<close> case, in epoch milliseconds.
\<close>

record timing =
  new_Date :: int
  Date_now :: int

text \<open>The object spread \<^verbatim>\<open>{ ...m }\<close> of a record that may be \<^verbatim>\<open>null\<close>.\<close>

fun spread :: "(string \<rightharpoonup> jsval) option \<Rightarrow> (string \<rightharpoonup> jsval)" where
  "spread None = Map.empty"
| "spread (Some m) = m"

definition processMessage ::
  "js_runtime \<Rightarrow> timing \<Rightarrow> WebSocketState \<Rightarrow> message \<Rightarrow> js_error + WebSocketState" where
  "processMessage rt tm state message =
     (let type = msg_type message; data = msg_data message;
          newState = state\<lparr>lastMessageTime := Some (new_Date tm)\<rparr>
      in
      if type = JStr ''account_update'' then Inr (newState\<lparr>accountData := data\<rparr>)
      else if type = JStr ''market_data'' then
        (if truthy data \<and> js_typeof data = ''object'' then
           (case js_in ''symbol'' data of
              Inl e \<Rightarrow> Inl e
            | Inr b \<Rightarrow>
                if b then
                  (case toString rt (js_get data ''symbol'') of
                     Inl e \<Rightarrow> Inl e
                   | Inr key \<Rightarrow>
                       Inr (newState\<lparr>marketData :=
                         Some ((spread (marketData newState))
                           (key \<mapsto> js_or (js_get data ''data'') data))\<rparr>))
                else Inr newState)
         else Inr newState)
      else if type = JStr ''position_update'' then
        (if isArray data then Inr (newState\<lparr>positions := data\<rparr>)
         else if truthy data then
           (case js_in ''positions'' data of
              Inl e \<Rightarrow> Inl e
            | Inr b \<Rightarrow>
                if b then Inr (newState\<lparr>positions := js_get data ''positions''\<rparr>)
                else Inr newState)
         else Inr newState)
      else if type = JStr ''order_update'' then
        (if isArray data then Inr (newState\<lparr>orders := data\<rparr>)
         else if truthy data then
           (case js_in ''orders'' data of
              Inl e \<Rightarrow> Inl e
            | Inr b \<Rightarrow>
                if b then Inr (newState\<lparr>orders := js_get data ''orders''\<rparr>)
                else Inr newState)
         else Inr newState)
      else if type = JStr ''connection_status'' \<or> type = JStr ''connection_connected'' then
        Inr (newState\<lparr>error :=
          (if truthy (js_get data ''connected'') then JNull
           else js_or (js_get data ''message'') (JStr ''Connection status unknown''))\<rparr>)
      else if type = JStr ''connection_disconnected'' then
        Inr (newState\<lparr>error := JStr ''MT5 connection lost''\<rparr>)
      else if type = JStr ''error'' then
        (if js_typeof data = ''string'' then Inr (newState\<lparr>error := data\<rparr>)
         else if truthy data \<and> js_typeof data = ''object'' then
           (case js_in ''message'' data of
              Inl e \<Rightarrow> Inl e
            | Inr b \<Rightarrow>
                if b then
                  Inr (newState\<lparr>error :=
                    js_or (js_get data ''message'') (JStr ''Unknown server error'')\<rparr>)
                else Inr (newState\<lparr>error := JStr ''Unknown server error''\<rparr>))
         else Inr (newState\<lparr>error := JStr ''Unknown server error''\<rparr>))
      else if type = JStr ''pong'' then
        (if truthy data \<and> js_typeof data = ''object'' then
           (case js_in ''timestamp'' data of
              Inl e \<Rightarrow> Inl e
            | Inr b \<Rightarrow>
                if b \<and> truthy (js_get data ''timestamp'') then
                  (let ts = js_get data ''timestamp'';
                       timestamp = (if js_typeof ts = ''string''
                                    then (case ts of JStr s \<Rightarrow> JNum (parseInt rt s) | _ \<Rightarrow> ts)
                                    else ts)
                   in (case toNumber rt timestamp of
                         Inl e \<Rightarrow> Inl e
                       | Inr n \<Rightarrow>
                           Inr (newState\<lparr>latency := js_sub (Fin (of_int (Date_now tm))) n\<rparr>)))
                else Inr newState)
         else Inr newState)
      else Inr newState)"

text \<open>
  The loop \<^verbatim>\<open>action.messages.forEach(message => { newState = processMessage(newState, message) })\<close>;
  the \<open>k\<close>-th call reads the clock values \<open>clk k\<close>. An exception leaves the loop.
\<close>

fun forEach_processMessage ::
  "js_runtime \<Rightarrow> (nat \<Rightarrow> timing) \<Rightarrow> nat \<Rightarrow> WebSocketState \<Rightarrow> message list
     \<Rightarrow> js_error + WebSocketState" where
  "forEach_processMessage rt clk k newState [] = Inr newState"
| "forEach_processMessage rt clk k newState (m # ms) =
     (case processMessage rt (clk k) newState m of
        Inl e \<Rightarrow> Inl e
      | Inr s \<Rightarrow> forEach_processMessage rt clk (Suc k) s ms)"

fun reducer ::
  "js_runtime \<Rightarrow> (nat \<Rightarrow> timing) \<Rightarrow> WebSocketState \<Rightarrow> WebSocketAction
     \<Rightarrow> js_error + WebSocketState" where
  "reducer rt clk state CONNECTED =
     Inr (state\<lparr>isConnected := True, error := JNull, connectionAttempts := 0,
               lastMessageTime := Some (new_Date (clk 0))\<rparr>)"
| "reducer rt clk state (DISCONNECTED reason) =
     Inr (initialState\<lparr>
       error := (case reason of None \<Rightarrow> JStr ''Connection lost.''
                 | Some r \<Rightarrow> js_or (JStr r) (JStr ''Connection lost.'')),
       subscribedChannels := subscribedChannels state\<rparr>)"
| "reducer rt clk state RECONNECTING =
     Inr (state\<lparr>isConnected := False,
       error := JStr (''Reconnecting... Attempt ''
                  @ numberToString rt (Fin (of_nat (connectionAttempts state + 1))) @ ''.''),
       connectionAttempts := connectionAttempts state + 1\<rparr>)"
| "reducer rt clk state (MESSAGE payload) = processMessage rt (clk 0) state payload"
| "reducer rt clk state (BATCH_UPDATE messages) =
     forEach_processMessage rt clk 0 state messages"
| "reducer rt clk state (SUBSCRIBE channel) =
     Inr (state\<lparr>subscribedChannels := subscribedChannels state \<union> {channel}\<rparr>)"
| "reducer rt clk state (UNSUBSCRIBE channel) =
     Inr (state\<lparr>subscribedChannels := subscribedChannels state - {channel}\<rparr>)"
| "reducer rt clk state (UPDATE_LATENCY l) = Inr (state\<lparr>latency := l\<rparr>)"

text \<open>The derived connection quality returned by the hook.\<close>

definition connectionQuality :: "WebSocketState \<Rightarrow> string" where
  "connectionQuality state =
     (if isConnected state then
        (if latency state = Fin 0 then ''excellent''
         else if js_lt (latency state) 100 then ''excellent''
         else if js_lt (latency state) 300 then ''good''
         else ''poor'')
      else ''disconnected'')"

section \<open>The enhanced hook: connection manager\<close>

text \<open>
  The hook's configuration: the fields of \<^verbatim>\<open>finalConfig\<close> and the constants it reads from
  \<^verbatim>\<open>CONFIG\<close> (a module that is not part of the sources at hand, so its values are
  parameters): \<^verbatim>\<open>WEBSOCKET.RECONNECT.BACKOFF_FACTOR\<close>, \<^verbatim>\<open>MAX_DELAY\<close>, \<^verbatim>\<open>JITTER\<close>,
  \<^verbatim>\<open>REALTIME.BATCH_UPDATES\<close>, \<^verbatim>\<open>BUFFER_SIZE\<close> and the four \<^verbatim>\<open>WEBSOCKET.CHANNELS\<close>.
\<close>

record config =
  maxReconnectAttempts :: nat
  reconnectDelay :: rat
  heartbeatInterval :: int
  connectionTimeout :: int
  enablePubSub :: bool
  autoSubscribe :: bool
  BACKOFF_FACTOR :: rat
  MAX_DELAY :: rat
  JITTER :: bool
  BATCH_UPDATES :: bool
  BUFFER_SIZE :: nat
  ACCOUNT_UPDATES :: string
  POSITION_UPDATES :: string
  ORDER_UPDATES :: string
  CONNECTION_STATUS :: string

datatype readyState = CONNECTING | OPEN | CLOSING | CLOSED

text \<open>
  The mutable world of one hook instance: every \<^verbatim>\<open>WebSocket\<close> created so far with its
  ready state (a socket is identified by its position), the fields of \<^verbatim>\<open>metaRef.current\<close>,
  the pending \<^verbatim>\<open>setTimeout\<close> callbacks that are not kept in \<^verbatim>\<open>timers\<close>, and the two
  outputs: the actions passed to \<^verbatim>\<open>dispatch\<close> and the frames passed to \<^verbatim>\<open>ws.send\<close>,
  oldest first. A pending reconnect timer remembers the delay it was armed with.
\<close>

record hook =
  sockets :: "readyState list"
  ws :: "nat option"
  timer_heartbeat :: bool
  timer_reconnect :: "rat option"
  timer_connection :: "nat option"
  timer_latencyCheck :: bool
  isManualClose :: bool
  m_connectionAttempts :: nat
  m_messageBuffer :: "message list"
  lastPingTime :: int
  pending_subscribes :: "string list"
  pending_connects :: nat
  dispatched :: "WebSocketAction list"
  sent :: "(nat \<times> jsval) list"

definition initialHook :: hook where
  "initialHook =
     \<lparr> sockets = [], ws = None, timer_heartbeat = False, timer_reconnect = None,
       timer_connection = None, timer_latencyCheck = False, isManualClose = False,
       m_connectionAttempts = 0, m_messageBuffer = [], lastPingTime = 0,
       pending_subscribes = [], pending_connects = 0, dispatched = [], sent = [] \<rparr>"

definition dispatch :: "WebSocketAction \<Rightarrow> hook \<Rightarrow> hook" where
  "dispatch a h = h\<lparr>dispatched := dispatched h @ [a]\<rparr>"

text \<open>\<^verbatim>\<open>metaRef.current.ws?.readyState === r\<close>\<close>

definition ws_readyState_is :: "hook \<Rightarrow> readyState \<Rightarrow> bool" where
  "ws_readyState_is h r =
     (case ws h of None \<Rightarrow> False | Some i \<Rightarrow> i < length (sockets h) \<and> sockets h ! i = r)"

text \<open>
  \<^verbatim>\<open>socket.close(1000, reason)\<close>: a connecting or open socket starts closing, a closing or
  closed one is left as it is.
\<close>

definition socket_close :: "nat \<Rightarrow> hook \<Rightarrow> hook" where
  "socket_close i h =
     (if i < length (sockets h) \<and> (sockets h ! i = CONNECTING \<or> sockets h ! i = OPEN)
      then h\<lparr>sockets := (sockets h)[i := CLOSING]\<rparr> else h)"

definition clearAllTimers :: "hook \<Rightarrow> hook" where
  "clearAllTimers h =
     h\<lparr>timer_heartbeat := False, timer_reconnect := None, timer_connection := None,
       timer_latencyCheck := False\<rparr>"

text \<open>\<^verbatim>\<open>sendMessage\<close>: the frame goes to the current socket when it is open, and is dropped otherwise.\<close>

definition sendMessage :: "jsval \<Rightarrow> hook \<Rightarrow> hook" where
  "sendMessage msg h =
     (case ws h of
        None \<Rightarrow> h
      | Some i \<Rightarrow>
          if i < length (sockets h) \<and> sockets h ! i = OPEN
          then h\<lparr>sent := sent h @ [(i, msg)]\<rparr> else h)"

definition subscribe :: "int \<Rightarrow> string \<Rightarrow> hook \<Rightarrow> hook" where
  "subscribe now channel h =
     dispatch (SUBSCRIBE channel)
       (sendMessage (JObj [(''type'', JStr ''subscribe''), (''channel'', JStr channel),
                           (''timestamp'', JNum (Fin (of_int now)))]) h)"

definition unsubscribe :: "int \<Rightarrow> string \<Rightarrow> hook \<Rightarrow> hook" where
  "unsubscribe now channel h =
     dispatch (UNSUBSCRIBE channel)
       (sendMessage (JObj [(''type'', JStr ''unsubscribe''), (''channel'', JStr channel),
                           (''timestamp'', JNum (Fin (of_int now)))]) h)"

definition startHeartbeat :: "hook \<Rightarrow> hook" where
  "startHeartbeat h = h\<lparr>timer_heartbeat := True\<rparr>"

definition startLatencyMonitoring :: "hook \<Rightarrow> hook" where
  "startLatencyMonitoring h = h\<lparr>timer_latencyCheck := True\<rparr>"

text \<open>Each essential channel is subscribed by an own \<^verbatim>\<open>setTimeout\<close> callback, 100 ms later.\<close>

definition autoSubscribeToChannels :: "config \<Rightarrow> hook \<Rightarrow> hook" where
  "autoSubscribeToChannels cfg h =
     (if \<not> autoSubscribe cfg then h
      else h\<lparr>pending_subscribes := pending_subscribes h @
             [ACCOUNT_UPDATES cfg, POSITION_UPDATES cfg, ORDER_UPDATES cfg,
              CONNECTION_STATUS cfg]\<rparr>)"

definition connect :: "config \<Rightarrow> hook \<Rightarrow> hook" where
  "connect cfg h =
     (if ws_readyState_is h CONNECTING \<or> ws_readyState_is h OPEN
         \<or> m_connectionAttempts h > maxReconnectAttempts cfg
      then h
      else (let h1 = (clearAllTimers h)\<lparr>isManualClose := False\<rparr>;
                n = length (sockets h1)
            in h1\<lparr>sockets := sockets h1 @ [CONNECTING], ws := Some n,
                   timer_connection := Some n\<rparr>))"

definition ws_onopen :: "config \<Rightarrow> hook \<Rightarrow> hook" where
  "ws_onopen cfg h =
     autoSubscribeToChannels cfg
       (startLatencyMonitoring
         (startHeartbeat
           (dispatch CONNECTED ((clearAllTimers h)\<lparr>m_connectionAttempts := 0\<rparr>))))"

text \<open>
  \<^verbatim>\<open>ws.onmessage\<close>. The frame is the result of \<^verbatim>\<open>JSON.parse\<close>: \<open>None\<close> when parsing raises;
  reading \<^verbatim>\<open>message.type\<close> of \<^verbatim>\<open>null\<close> raises as well. Both exceptions are caught and logged.
\<close>

definition ws_onmessage :: "config \<Rightarrow> int \<Rightarrow> jsval option \<Rightarrow> hook \<Rightarrow> hook" where
  "ws_onmessage cfg now frame h =
     (case frame of
        None \<Rightarrow> h
      | Some v \<Rightarrow>
          if v = JNull \<or> v = JUndefined then h
          else if js_get v ''type'' = JStr ''pong'' then
            dispatch (UPDATE_LATENCY (Fin (of_int (now - lastPingTime h)))) h
          else if js_get v ''type'' = JStr ''heartbeat'' then h
          else (let message = \<lparr>msg_type = js_get v ''type'', msg_data = js_get v ''data''\<rparr> in
            if BATCH_UPDATES cfg then
              (let h1 = h\<lparr>m_messageBuffer := m_messageBuffer h @ [message]\<rparr> in
               if length (m_messageBuffer h1) \<ge> BUFFER_SIZE cfg
               then (dispatch (BATCH_UPDATE (m_messageBuffer h1)) h1)\<lparr>m_messageBuffer := []\<rparr>
               else h1)
            else dispatch (MESSAGE message) h))"

text \<open>
  \<^verbatim>\<open>ws.onclose\<close> with the close event's code and reason; \<open>rnd\<close> is the value of
  \<^verbatim>\<open>Math.random()\<close>, read when jitter is on.
\<close>

definition ws_onclose :: "config \<Rightarrow> nat \<Rightarrow> string \<Rightarrow> rat \<Rightarrow> hook \<Rightarrow> hook" where
  "ws_onclose cfg code reason rnd h =
     (let h1 = clearAllTimers h;
          h2 = (if length (m_messageBuffer h1) > 0
                then (dispatch (BATCH_UPDATE (m_messageBuffer h1)) h1)\<lparr>m_messageBuffer := []\<rparr>
                else h1);
          h3 = dispatch (DISCONNECTED (Some (if reason \<noteq> [] then reason else ''Connection lost''))) h2
      in
      if isManualClose h3 \<or> code = 1000 then h3
      else (let h4 = h3\<lparr>m_connectionAttempts := m_connectionAttempts h3 + 1\<rparr>;
                delay = min (reconnectDelay cfg * BACKOFF_FACTOR cfg ^ m_connectionAttempts h4)
                            (MAX_DELAY cfg);
                delay' = (if JITTER cfg then delay + rnd * 1000 else delay)
            in h4\<lparr>timer_reconnect := Some delay'\<rparr>))"

definition disconnect :: "hook \<Rightarrow> hook" where
  "disconnect h =
     (let h1 = clearAllTimers (h\<lparr>isManualClose := True, m_connectionAttempts := 0\<rparr>);
          h2 = (case ws h1 of None \<Rightarrow> h1 | Some i \<Rightarrow> socket_close i h1)
      in dispatch (DISCONNECTED (Some ''Manually disconnected'')) (h2\<lparr>ws := None\<rparr>))"

text \<open>\<^verbatim>\<open>reconnect\<close>: \<^verbatim>\<open>disconnect()\<close>, then \<^verbatim>\<open>connect\<close> from a timer 100 ms later.\<close>

definition reconnect :: "hook \<Rightarrow> hook" where
  "reconnect h = (let h1 = disconnect h in h1\<lparr>pending_connects := pending_connects h1 + 1\<rparr>)"

text \<open>
  What can happen to a hook instance: a call of its interface, an event of one of its
  sockets, or a timer that fires. An event that cannot happen in the current state (a
  socket that does not exist, a timer that is not pending) leaves the state as it is.
\<close>

datatype event =
    Call_connect
  | Call_disconnect
  | Call_reconnect
  | Call_subscribe int string
  | Call_unsubscribe int string
  | Call_sendMessage jsval
  | Socket_open nat
  | Socket_message nat int "jsval option"
  | Socket_close nat nat string rat
  | Timer_connection
  | Timer_reconnect
  | Timer_heartbeat int
  | Timer_latencyCheck int
  | Timer_flush
  | Timer_subscribe int
  | Timer_connect

fun step :: "config \<Rightarrow> hook \<Rightarrow> event \<Rightarrow> hook" where
  "step cfg h Call_connect = connect cfg h"
| "step cfg h Call_disconnect = disconnect h"
| "step cfg h Call_reconnect = reconnect h"
| "step cfg h (Call_subscribe now c) = subscribe now c h"
| "step cfg h (Call_unsubscribe now c) = unsubscribe now c h"
| "step cfg h (Call_sendMessage msg) = sendMessage msg h"
| "step cfg h (Socket_open i) =
     (if i < length (sockets h) \<and> sockets h ! i = CONNECTING
      then ws_onopen cfg (h\<lparr>sockets := (sockets h)[i := OPEN]\<rparr>) else h)"
| "step cfg h (Socket_message i now frame) =
     (if i < length (sockets h) \<and> (sockets h ! i = OPEN \<or> sockets h ! i = CLOSING)
      then ws_onmessage cfg now frame h else h)"
| "step cfg h (Socket_close i code reason rnd) =
     (if i < length (sockets h) \<and> sockets h ! i \<noteq> CLOSED
      then ws_onclose cfg code reason rnd (h\<lparr>sockets := (sockets h)[i := CLOSED]\<rparr>) else h)"
| "step cfg h Timer_connection =
     (case timer_connection h of
        None \<Rightarrow> h
      | Some i \<Rightarrow>
          (let h1 = h\<lparr>timer_connection := None\<rparr> in
           if i < length (sockets h1) \<and> sockets h1 ! i = CONNECTING then socket_close i h1
           else h1))"
| "step cfg h Timer_reconnect =
     (case timer_reconnect h of
        None \<Rightarrow> h
      | Some d \<Rightarrow> connect cfg (dispatch RECONNECTING (h\<lparr>timer_reconnect := None\<rparr>)))"
| "step cfg h (Timer_heartbeat now) =
     (if timer_heartbeat h \<and> ws_readyState_is h OPEN
      then sendMessage (JObj [(''type'', JStr ''ping''), (''timestamp'', JNum (Fin (of_int now)))])
             (h\<lparr>lastPingTime := now\<rparr>)
      else h)"
| "step cfg h (Timer_latencyCheck now) =
     (if timer_latencyCheck h \<and> lastPingTime h > 0
         \<and> now - lastPingTime h > heartbeatInterval cfg * 2
      then dispatch (UPDATE_LATENCY (Fin (- 1))) h else h)"
| "step cfg h Timer_flush =
     (if BATCH_UPDATES cfg \<and> length (m_messageBuffer h) > 0
      then (dispatch (BATCH_UPDATE (m_messageBuffer h)) h)\<lparr>m_messageBuffer := []\<rparr> else h)"
| "step cfg h (Timer_subscribe now) =
     (case pending_subscribes h of
        [] \<Rightarrow> h
      | c # cs \<Rightarrow> subscribe now c (h\<lparr>pending_subscribes := cs\<rparr>))"
| "step cfg h Timer_connect =
     (if pending_connects h > 0
      then connect cfg (h\<lparr>pending_connects := pending_connects h - 1\<rparr>) else h)"

definition run :: "config \<Rightarrow> hook \<Rightarrow> event list \<Rightarrow> hook" where
  "run cfg h evs = foldl (step cfg) h evs"

text \<open>
  The snapshot React computes from the dispatched actions: the reducer is applied to them in
  order; the \<open>j\<close>-th application reads the clock values \<open>clks j\<close>.
\<close>

fun apply_actions ::
  "js_runtime \<Rightarrow> (nat \<Rightarrow> nat \<Rightarrow> timing) \<Rightarrow> nat \<Rightarrow> WebSocketState \<Rightarrow> WebSocketAction list
     \<Rightarrow> js_error + WebSocketState" where
  "apply_actions rt clks j s [] = Inr s"
| "apply_actions rt clks j s (a # as) =
     (case reducer rt (clks j) s a of
        Inl e \<Rightarrow> Inl e
      | Inr s' \<Rightarrow> apply_actions rt clks (Suc j) s' as)"

definition snapshot :: "js_runtime \<Rightarrow> (nat \<Rightarrow> nat \<Rightarrow> timing) \<Rightarrow> hook \<Rightarrow> js_error + WebSocketState" where
  "snapshot rt clks h = apply_actions rt clks 0 initialState (dispatched h)"

section \<open>The basic hook\<close>

text \<open>
  The reducer of \<^verbatim>\<open>useWebSocket.ts\<close>. It uses no \<^verbatim>\<open>in\<close> operator and reads payload
  properties through \<^verbatim>\<open>?.\<close> only, so it raises no exception.
\<close>

record BasicState =
  b_accountData :: jsval
  b_isConnected :: bool
  b_error :: jsval
  b_connectionAttempts :: nat
  b_lastMessageTime :: "int option"

datatype BasicAction =
    CONNECTED_basic
  | DISCONNECTED_basic "string option"
  | RECONNECTING_basic
  | MESSAGE_basic message

definition initialState_basic :: BasicState where
  "initialState_basic =
     \<lparr> b_accountData = JNull, b_isConnected = False, b_error = JNull,
       b_connectionAttempts = 0, b_lastMessageTime = None \<rparr>"

fun reducer_basic :: "js_runtime \<Rightarrow> timing \<Rightarrow> BasicState \<Rightarrow> BasicAction \<Rightarrow> BasicState" where
  "reducer_basic rt tm state CONNECTED_basic =
     state\<lparr>b_isConnected := True, b_error := JNull, b_connectionAttempts := 0,
           b_lastMessageTime := Some (new_Date tm)\<rparr>"
| "reducer_basic rt tm state (DISCONNECTED_basic reason) =
     initialState_basic\<lparr>
       b_error := (case reason of None \<Rightarrow> JStr ''Connection lost.''
                   | Some r \<Rightarrow> js_or (JStr r) (JStr ''Connection lost.''))\<rparr>"
| "reducer_basic rt tm state RECONNECTING_basic =
     (let newAttempts = b_connectionAttempts state + 1 in
      state\<lparr>b_isConnected := False,
        b_error := JStr (''Reconnecting... Attempt ''
                     @ numberToString rt (Fin (of_nat newAttempts)) @ ''.''),
        b_connectionAttempts := newAttempts\<rparr>)"
| "reducer_basic rt tm state (MESSAGE_basic payload) =
     (let type = msg_type payload; data = msg_data payload;
          newState = state\<lparr>b_lastMessageTime := Some (new_Date tm)\<rparr>
      in
      if type = JStr ''account_update'' then newState\<lparr>b_accountData := data\<rparr>
      else if type = JStr ''connection_status'' \<or> type = JStr ''connection_connected'' then
        newState\<lparr>b_error :=
          (if truthy (js_get data ''connected'') then JNull
           else js_or (js_get data ''message'') (JStr ''Connection status unknown''))\<rparr>
      else if type = JStr ''connection_disconnected'' then
        newState\<lparr>b_error := JStr ''MT5 connection lost''\<rparr>
      else if type = JStr ''error'' then
        newState\<lparr>b_error := js_or (js_get data ''message'') (JStr ''Unknown server error'')\<rparr>
      else newState)"

text \<open>
  The delay \<^verbatim>\<open>Math.min(reconnectDelay * Math.pow(2, state.connectionAttempts), 30000)\<close> of
  the basic hook's \<^verbatim>\<open>ws.onclose\<close>.
\<close>

definition reconnect_delay_basic :: "rat \<Rightarrow> nat \<Rightarrow> rat" where
  "reconnect_delay_basic base attempts = min (base * 2 ^ attempts) 30000"

section \<open>Notions used to state the properties\<close>

text \<open>The case labels of the \<^verbatim>\<open>switch\<close> in \<^verbatim>\<open>processMessage\<close>.\<close>

definition switch_labels :: "string list" where
  "switch_labels =
     [''account_update'', ''market_data'', ''position_update'', ''order_update'',
      ''connection_status'', ''connection_connected'', ''connection_disconnected'',
      ''error'', ''pong'']"

text \<open>A socket counts as live while it is connecting or open.\<close>

definition live :: "readyState \<Rightarrow> bool" where
  "live r = (r = CONNECTING \<or> r = OPEN)"

definition live_sockets :: "hook \<Rightarrow> nat list" where
  "live_sockets h = filter (\<lambda>i. live (sockets h ! i)) [0..<length (sockets h)]"

text \<open>The invariant of the connection manager: a live socket is the one the hook refers to.\<close>

definition owned :: "hook \<Rightarrow> bool" where
  "owned h = (\<forall>i < length (sockets h). live (sockets h ! i) \<longrightarrow> ws h = Some i)"

text \<open>
  The specification of a flush: the left-to-right fold of the per-message reducer over the
  buffered messages, the \<open>k\<close>-th message reduced at the clock values \<open>clk k\<close>.
\<close>

definition reduce_step ::
  "js_runtime \<Rightarrow> (nat \<Rightarrow> timing) \<Rightarrow> js_error + WebSocketState \<Rightarrow> nat \<times> message
     \<Rightarrow> js_error + WebSocketState" where
  "reduce_step rt clk acc km =
     (case acc of Inl e \<Rightarrow> Inl e | Inr s \<Rightarrow> processMessage rt (clk (fst km)) s (snd km))"

definition sequential_fold ::
  "js_runtime \<Rightarrow> (nat \<Rightarrow> timing) \<Rightarrow> WebSocketState \<Rightarrow> message list
     \<Rightarrow> js_error + WebSocketState" where
  "sequential_fold rt clk s msgs =
     foldl (reduce_step rt clk) (Inr s) (zip [0..<length msgs] msgs)"

text \<open>The message a data frame is buffered or dispatched as.\<close>

definition frame_message :: "jsval \<Rightarrow> message" where
  "frame_message v = \<lparr>msg_type = js_get v ''type'', msg_data = js_get v ''data''\<rparr>"

text \<open>A frame that \<^verbatim>\<open>ws.onmessage\<close> hands on: parsed, not \<^verbatim>\<open>null\<close>, neither pong nor heartbeat.\<close>

definition data_frame :: "jsval \<Rightarrow> bool" where
  "data_frame v =
     (v \<noteq> JNull \<and> v \<noteq> JUndefined \<and> js_get v ''type'' \<noteq> JStr ''pong''
        \<and> js_get v ''type'' \<noteq> JStr ''heartbeat'')"

definition account_update :: "rat \<Rightarrow> message" where
  "account_update b =
     \<lparr>msg_type = JStr ''account_update'', msg_data = JObj [(''balance'', JNum (Fin b))]\<rparr>"

definition balance_of :: "js_error + WebSocketState \<Rightarrow> jsval" where
  "balance_of r = (case r of Inl e \<Rightarrow> JUndefined | Inr s \<Rightarrow> js_get (accountData s) ''balance'')"

definition error_after :: "js_error + WebSocketState \<Rightarrow> jsval option" where
  "error_after r = (case r of Inl e \<Rightarrow> None | Inr s \<Rightarrow> Some (error s))"

definition subscribed_of :: "js_error + WebSocketState \<Rightarrow> string set" where
  "subscribed_of r = (case r of Inl e \<Rightarrow> {} | Inr s \<Rightarrow> subscribedChannels s)"

text \<open>The channels named by the subscribe frames sent on socket \<open>i\<close>, oldest first.\<close>

definition sent_channels :: "nat \<Rightarrow> hook \<Rightarrow> jsval list" where
  "sent_channels i h =
     map (\<lambda>p. js_get (snd p) ''channel'')
       (filter (\<lambda>p. fst p = i \<and> js_get (snd p) ''type'' = JStr ''subscribe'') (sent h))"

subsection \<open>Concrete inputs\<close>

text \<open>
  A runtime, clock values and a configuration to evaluate examples with. The examples do not
  depend on the runtime's conversions. The configuration has the documented defaults
  (base delay 2000 ms, factor 2, cap 30000 ms, at most 5 attempts), no jitter, batching on.
\<close>

definition example_runtime :: js_runtime where
  "example_runtime =
     \<lparr> parseInt = (\<lambda>s. NaN), stringToNumber = (\<lambda>s. NaN), numberToString = (\<lambda>n. ''NaN'') \<rparr>"

definition example_timing :: timing where
  "example_timing = \<lparr> new_Date = 1700000000000, Date_now = 1700000000000 \<rparr>"

definition example_config :: config where
  "example_config =
     \<lparr> maxReconnectAttempts = 5, reconnectDelay = 2000, heartbeatInterval = 30000,
       connectionTimeout = 10000, enablePubSub = True, autoSubscribe = True,
       BACKOFF_FACTOR = 2, MAX_DELAY = 30000,
       JITTER = False, BATCH_UPDATES = True, BUFFER_SIZE = 10,
       ACCOUNT_UPDATES = ''account_updates'', POSITION_UPDATES = ''position_updates'',
       ORDER_UPDATES = ''order_updates'', CONNECTION_STATUS = ''connection_status'' \<rparr>"

text \<open>
  A session: connect, open, the four automatic subscriptions, \<^verbatim>\<open>subscribe("prices")\<close>, an
  abnormal close (code 1006), the reconnect timer, the new socket opens, and the four
  subscription timers of the new connection fire.
\<close>

definition replay_trace :: "event list" where
  "replay_trace =
     [Call_connect, Socket_open 0,
      Timer_subscribe 3, Timer_subscribe 3, Timer_subscribe 3, Timer_subscribe 3,
      Call_subscribe 5 ''prices'',
      Socket_close 0 1006 [] 0, Timer_reconnect, Socket_open 1,
      Timer_subscribe 9, Timer_subscribe 9, Timer_subscribe 9, Timer_subscribe 9]"

text \<open>A snapshot with data, subscribed to one channel, and one that differs in the data only.\<close>

definition example_state :: WebSocketState where
  "example_state =
     \<lparr> accountData = JObj [(''balance'', JNum (Fin 5000))],
       marketData = Some [''EURUSD'' \<mapsto> JObj [(''bid'', JNum (Fin (11 / 10)))]],
       positions = JArr [JObj [(''ticket'', JNum (Fin 1))]],
       orders = JArr [JObj [(''ticket'', JNum (Fin 2))]],
       isConnected = True, error = JNull, connectionAttempts = 0,
       lastMessageTime = Some 1690000000000, subscribedChannels = {''account''},
       latency = Fin 42, messageBuffer = [] \<rparr>"

definition example_state' :: WebSocketState where
  "example_state' = initialState\<lparr>subscribedChannels := {''account''}\<rparr>"

text \<open>
  The frame of an account update, and a hook with batching on whose socket is open and
  whose buffer holds two account updates, balance 100 then balance 200.
\<close>

definition account_frame :: "rat \<Rightarrow> jsval" where
  "account_frame b =
     JObj [(''type'', JStr ''account_update''), (''data'', JObj [(''balance'', JNum (Fin b))])]"

definition buffered_hook :: hook where
  "buffered_hook =
     run example_config initialHook
       [Call_connect, Socket_open 0,
        Socket_message 0 7 (Some (account_frame 100)),
        Socket_message 0 8 (Some (account_frame 200))]"

text \<open>A hook whose only socket is still connecting.\<close>

definition connecting_hook :: hook where
  "connecting_hook = run example_config initialHook [Call_connect]"

section \<open>Snapshot reset on disconnect\<close>

text \<open>
  C4. For every reducer state, the DISCONNECTED transition returns a state whose accountData,
  marketData, positions and orders are absent and whose subscribedChannels are those of the
  state before; every other field is the one of the initial state (the error apart, which
  comes from the action), so the subscription set is the only field carried over: two states
  with the same subscriptions are mapped to the same state.
\<close>

theorem disconnect_resets_snapshot:
  "\<exists>s'. reducer rt clk s (DISCONNECTED reason) = Inr s'
     \<and> accountData s' = JNull \<and> marketData s' = None
     \<and> positions s' = JNull \<and> orders s' = JNull
     \<and> subscribedChannels s' = subscribedChannels s
     \<and> isConnected s' = isConnected initialState
     \<and> connectionAttempts s' = connectionAttempts initialState
     \<and> lastMessageTime s' = lastMessageTime initialState
     \<and> latency s' = latency initialState
     \<and> messageBuffer s' = messageBuffer initialState
     \<and> (\<forall>t. subscribedChannels t = subscribedChannels s
            \<longrightarrow> reducer rt clk t (DISCONNECTED reason) = Inr s')"
  by (simp add: initialState_def)

theorem disconnect_resets_snapshot_witness:
  "subscribedChannels example_state' = subscribedChannels example_state
   \<and> (\<exists>s'. reducer example_runtime (\<lambda>k. example_timing) example_state
               (DISCONNECTED (Some ''Connection lost'')) = Inr s'
          \<and> accountData s' = JNull \<and> marketData s' = None
          \<and> positions s' = JNull \<and> orders s' = JNull
          \<and> subscribedChannels s' = {''account''}
          \<and> reducer example_runtime (\<lambda>k. example_timing) example_state'
               (DISCONNECTED (Some ''Connection lost'')) = Inr s')"
proof -
  have h: "subscribedChannels example_state' = subscribedChannels example_state"
    by (simp add: example_state'_def example_state_def)
  have sub: "subscribedChannels example_state = {''account''}"
    by (simp add: example_state_def)
  from disconnect_resets_snapshot
    [of example_runtime "\<lambda>k. example_timing" example_state "Some ''Connection lost''"]
  obtain s' where
    "reducer example_runtime (\<lambda>k. example_timing) example_state
       (DISCONNECTED (Some ''Connection lost'')) = Inr s'"
    "accountData s' = JNull" "marketData s' = None" "positions s' = JNull" "orders s' = JNull"
    "subscribedChannels s' = subscribedChannels example_state"
    "\<forall>t. subscribedChannels t = subscribedChannels example_state
        \<longrightarrow> reducer example_runtime (\<lambda>k. example_timing) t
              (DISCONNECTED (Some ''Connection lost'')) = Inr s'"
    by blast
  with h sub show ?thesis by auto
qed

section \<open>Connection quality\<close>

lemma connectionQuality_buckets:
  "connectionQuality s =
     (if \<not> isConnected s then ''disconnected''
      else if latency s = Fin 0 \<or> js_lt (latency s) 100 then ''excellent''
      else if js_lt (latency s) 300 then ''good''
      else ''poor'')"
  by (simp add: connectionQuality_def)

text \<open>
  C1. The derived quality is disconnected when the connection is not open, else excellent for
  a latency of 0 or below 100, good below 300 and poor otherwise; the claim adds that a
  connected state whose latency is the stale sentinel -1 is rated poor. The classification
  has no case for the sentinel: -1 is below 100, so every connected state with latency -1 is
  rated excellent.
\<close>

theorem stale_sentinel_rated_excellent:
  "connectionQuality (s\<lparr>isConnected := True, latency := Fin (- 1)\<rparr>) = ''excellent''"
  by (simp add: connectionQuality_def)

section \<open>The reducer on single messages\<close>

lemma toString_primitive:
  "toString rt JUndefined = Inr ''undefined''"
  "toString rt JNull = Inr ''null''"
  "toString rt (JBool b) = Inr (if b then ''true'' else ''false'')"
  "toString rt (JNum n) = Inr (numberToString rt n)"
  "toString rt (JStr S) = Inr S"
  by simp_all

text \<open>
  C7. For every snapshot, a market_data message whose payload is an object with a symbol
  property that converts to the property key S (a string symbol S is its own key) merges
  into the entry of S only: the entry of S becomes the new quote, which is the payload's data
  property when that is truthy and the payload itself otherwise, and the entry of every
  other symbol is the one of the snapshot before.
\<close>

theorem market_data_merges_per_symbol:
  assumes "msg_type m = JStr ''market_data''" and "msg_data m = JObj ps"
    and "''symbol'' \<in> set (map fst ps)"
    and "toString rt (js_get (JObj ps) ''symbol'') = Inr S"
  shows "\<exists>s' md. processMessage rt tm s m = Inr s' \<and> marketData s' = Some md
          \<and> md S = Some (js_or (js_get (JObj ps) ''data'') (JObj ps))
          \<and> (\<forall>T. T \<noteq> S \<longrightarrow> md T = spread (marketData s) T)"
proof -
  let ?q = "js_or (js_get (JObj ps) ''data'') (JObj ps)"
  let ?md = "(spread (marketData s))(S \<mapsto> ?q)"
  have "processMessage rt tm s m
          = Inr (s\<lparr>lastMessageTime := Some (new_Date tm), marketData := Some ?md\<rparr>)"
    using assms by (simp add: processMessage_def Let_def)
  then show ?thesis by simp
qed

theorem market_data_merges_per_symbol_witness:
  "\<exists>s' md. processMessage example_runtime example_timing example_state
       \<lparr>msg_type = JStr ''market_data'',
        msg_data = JObj [(''symbol'', JStr ''GBPUSD''), (''bid'', JNum (Fin (5 / 4)))]\<rparr> = Inr s'
     \<and> marketData s' = Some md
     \<and> md ''GBPUSD'' = Some (JObj [(''symbol'', JStr ''GBPUSD''), (''bid'', JNum (Fin (5 / 4)))])
     \<and> md ''EURUSD'' = Some (JObj [(''bid'', JNum (Fin (11 / 10)))])"
proof -
  let ?ps = "[(''symbol'', JStr ''GBPUSD''), (''bid'', JNum (Fin (5 / 4)))]"
  let ?m = "\<lparr>msg_type = JStr ''market_data'', msg_data = JObj ?ps\<rparr>"
  have h1: "msg_type ?m = JStr ''market_data''" by simp
  have h2: "msg_data ?m = JObj ?ps" by simp
  have h3: "''symbol'' \<in> set (map fst ?ps)" by simp
  have h4: "toString example_runtime (js_get (JObj ?ps) ''symbol'') = Inr ''GBPUSD''" by simp
  from market_data_merges_per_symbol
    [OF h1 h2 h3 h4, of example_timing example_state]
  obtain s' md where r:
    "processMessage example_runtime example_timing example_state ?m = Inr s'"
    "marketData s' = Some md"
    "md ''GBPUSD'' = Some (js_or (js_get (JObj ?ps) ''data'') (JObj ?ps))"
    "\<forall>T. T \<noteq> ''GBPUSD'' \<longrightarrow> md T = spread (marketData example_state) T"
    by blast
  have q: "js_or (js_get (JObj ?ps) ''data'') (JObj ?ps) = JObj ?ps" by (simp add: js_or_def)
  have "md ''EURUSD'' = spread (marketData example_state) ''EURUSD''"
    using r(4) by simp
  then have e: "md ''EURUSD'' = Some (JObj [(''bid'', JNum (Fin (11 / 10)))])"
    by (simp add: example_state_def)
  from r(3) q have g: "md ''GBPUSD'' = Some (JObj ?ps)" by simp
  from r(1) r(2) g e show ?thesis by blast
qed

text \<open>
  A symbol that does not convert to a property key: the reducer raises, and no snapshot is
  returned.
\<close>

lemma market_data_symbol_conversion_raises:
  assumes "msg_type m = JStr ''market_data''" and "msg_data m = JObj ps"
    and "''symbol'' \<in> set (map fst ps)"
    and "toString rt (js_get (JObj ps) ''symbol'') = Inl e"
  shows "processMessage rt tm s m = Inl e"
  using assms by (simp add: processMessage_def Let_def)

lemma market_data_object_symbol_example:
  "processMessage rt tm s
     \<lparr>msg_type = JStr ''market_data'',
      msg_data = JObj [(''symbol'', JObj [(''toString'', JNum (Fin 1))])]\<rparr> = Inl TypeError"
  by (simp add: processMessage_def)

text \<open>
  C8. For every snapshot and every message whose kind is none of the kinds the reducer
  handles, the reducer returns the snapshot with lastMessageTime set to the current time and
  every other field as before. Every message for which the reducer returns a snapshot, of
  any kind, has lastMessageTime set to the current time in it. The reducer returns a
  snapshot for every message whose kind is not market_data, position_update, order_update
  or pong; it returns none for a position_update or order_update whose payload is a truthy
  value that is not an object, where it raises a TypeError.
\<close>

theorem unknown_kind_only_updates_lastMessageTime:
  "(msg_type m \<notin> JStr ` set switch_labels
      \<longrightarrow> processMessage rt tm s m = Inr (s\<lparr>lastMessageTime := Some (new_Date tm)\<rparr>))
   \<and> (\<forall>s'. processMessage rt tm s m = Inr s' \<longrightarrow> lastMessageTime s' = Some (new_Date tm))
   \<and> (msg_type m \<notin> {JStr ''market_data'', JStr ''position_update'', JStr ''order_update'',
                       JStr ''pong''}
      \<longrightarrow> (\<exists>s'. processMessage rt tm s m = Inr s'))
   \<and> ((msg_type m = JStr ''position_update'' \<or> msg_type m = JStr ''order_update'')
         \<and> truthy (msg_data m) \<and> js_typeof (msg_data m) \<noteq> ''object''
      \<longrightarrow> processMessage rt tm s m = Inl TypeError)"
proof (intro conjI impI allI)
  assume "msg_type m \<notin> JStr ` set switch_labels"
  then show "processMessage rt tm s m = Inr (s\<lparr>lastMessageTime := Some (new_Date tm)\<rparr>)"
    by (auto simp add: processMessage_def Let_def switch_labels_def)
next
  fix s' assume "processMessage rt tm s m = Inr s'"
  then show "lastMessageTime s' = Some (new_Date tm)"
    by (auto simp add: processMessage_def Let_def split: if_splits sum.splits)
next
  assume "msg_type m \<notin> {JStr ''market_data'', JStr ''position_update'', JStr ''order_update'',
                       JStr ''pong''}"
  then show "\<exists>s'. processMessage rt tm s m = Inr s'"
    by (cases "msg_data m") (auto simp add: processMessage_def Let_def)
next
  assume "(msg_type m = JStr ''position_update'' \<or> msg_type m = JStr ''order_update'')
         \<and> truthy (msg_data m) \<and> js_typeof (msg_data m) \<noteq> ''object''"
  then show "processMessage rt tm s m = Inl TypeError"
    by (cases "msg_data m") (auto simp add: processMessage_def Let_def)
qed

theorem unknown_kind_only_updates_lastMessageTime_witness:
  "JStr ''nonsense'' \<notin> JStr ` set switch_labels
   \<and> processMessage example_runtime example_timing example_state
        \<lparr>msg_type = JStr ''nonsense'', msg_data = JUndefined\<rparr>
       = Inr (example_state\<lparr>lastMessageTime := Some 1700000000000\<rparr>)
   \<and> lastMessageTime (example_state\<lparr>lastMessageTime := Some 1700000000000\<rparr>)
       = Some 1700000000000"
proof -
  let ?m = "\<lparr>msg_type = JStr ''nonsense'', msg_data = JUndefined\<rparr>"
  have h: "msg_type ?m \<notin> JStr ` set switch_labels"
    by (simp add: switch_labels_def)
  have t: "new_Date example_timing = 1700000000000" by (simp add: example_timing_def)
  from unknown_kind_only_updates_lastMessageTime
    [of ?m example_runtime example_timing example_state] h
  have r: "processMessage example_runtime example_timing example_state ?m
        = Inr (example_state\<lparr>lastMessageTime := Some (new_Date example_timing)\<rparr>)"
    by blast
  from h r t show ?thesis by simp
qed

text \<open>
  C9 (as the code has it). For every snapshot, a message of kind error sets the error field
  to the payload when the payload is a string, to the payload's message property when the
  payload is an object whose message property is truthy, and to "Unknown server error" in
  every other case, which includes an object whose message property is empty or otherwise
  falsy; isConnected and connectionAttempts are those of the snapshot before. For a payload
  that is not a string the reducer of the basic hook does the same, and it leaves isConnected
  and connectionAttempts as they were for every payload.
\<close>

theorem error_message_sets_error:
  assumes "msg_type m = JStr ''error''"
  shows "\<exists>s'. processMessage rt tm s m = Inr s'
           \<and> (\<forall>str. msg_data m = JStr str \<longrightarrow> error s' = JStr str)
           \<and> (\<forall>ps. msg_data m = JObj ps \<and> truthy (js_get (JObj ps) ''message'')
                 \<longrightarrow> error s' = js_get (JObj ps) ''message'')
           \<and> ((\<forall>str. msg_data m \<noteq> JStr str) \<and> \<not> truthy (js_get (msg_data m) ''message'')
                 \<longrightarrow> error s' = JStr ''Unknown server error'')
           \<and> isConnected s' = isConnected s \<and> connectionAttempts s' = connectionAttempts s
           \<and> ((\<forall>str. msg_data m \<noteq> JStr str)
                 \<longrightarrow> b_error (reducer_basic rt tm b (MESSAGE_basic m)) = error s')
           \<and> b_isConnected (reducer_basic rt tm b (MESSAGE_basic m)) = b_isConnected b
           \<and> b_connectionAttempts (reducer_basic rt tm b (MESSAGE_basic m))
               = b_connectionAttempts b"
proof (cases "msg_data m")
  case (JObj ps)
  show ?thesis
  proof (cases "''message'' \<in> fst ` set ps")
    case True
    with JObj assms show ?thesis
      by (simp add: processMessage_def Let_def js_or_def)
  next
    case False
    then have "map_of ps ''message'' = None" by (simp add: map_of_eq_None_iff)
    with False JObj assms show ?thesis
      by (simp add: processMessage_def Let_def js_or_def)
  qed
qed (use assms in \<open>simp_all add: processMessage_def Let_def js_or_def\<close>)

theorem error_message_sets_error_witness:
  "\<exists>s'. processMessage example_runtime example_timing example_state
           \<lparr>msg_type = JStr ''error'', msg_data = JObj [(''message'', JStr ''Margin call'')]\<rparr>
         = Inr s'
       \<and> error s' = JStr ''Margin call''
       \<and> isConnected s' = isConnected example_state
       \<and> connectionAttempts s' = connectionAttempts example_state"
proof -
  let ?ps = "[(''message'', JStr ''Margin call'')]"
  let ?m = "\<lparr>msg_type = JStr ''error'', msg_data = JObj ?ps\<rparr>"
  have h: "msg_type ?m = JStr ''error''" by simp
  have p: "msg_data ?m = JObj ?ps \<and> truthy (js_get (JObj ?ps) ''message'')" by simp
  have g: "js_get (JObj ?ps) ''message'' = JStr ''Margin call''" by simp
  from error_message_sets_error
    [OF h, of example_runtime example_timing example_state initialState_basic]
  obtain s' where r:
    "processMessage example_runtime example_timing example_state ?m = Inr s'"
    "\<forall>ps. msg_data ?m = JObj ps \<and> truthy (js_get (JObj ps) ''message'')
        \<longrightarrow> error s' = js_get (JObj ps) ''message''"
    "isConnected s' = isConnected example_state"
    "connectionAttempts s' = connectionAttempts example_state"
    by blast
  from r(2) p have "error s' = js_get (JObj ?ps) ''message''" by blast
  with g have "error s' = JStr ''Margin call''" by simp
  with r(1) r(3) r(4) show ?thesis by blast
qed

theorem error_message_field_counterexample:
  "error_after (processMessage example_runtime example_timing example_state
       \<lparr>msg_type = JStr ''error'', msg_data = JObj [(''message'', JStr [])]\<rparr>)
     = Some (JStr ''Unknown server error'')
   \<and> error_after (processMessage example_runtime example_timing example_state
       \<lparr>msg_type = JStr ''error'', msg_data = JObj [(''message'', JStr [])]\<rparr>)
     \<noteq> Some (js_get (JObj [(''message'', JStr [])]) ''message'')"
  by (simp add: processMessage_def error_after_def js_or_def)

text \<open>
  The basic reducer has no case for a string payload, which the enhanced reducer has: on a
  string it reads the payload's message property, which a string has not.
\<close>

lemma reducer_basic_string_payload:
  "b_error (reducer_basic rt tm b (MESSAGE_basic \<lparr>msg_type = JStr ''error'', msg_data = JStr str\<rparr>))
     = JStr ''Unknown server error''"
  by (simp add: js_or_def)

text \<open>
  C10. The claim: the reducer raises no exception on any payload shape, and a
  position_update or order_update whose payload is neither an array nor an object with a
  positions (orders) property leaves the positions (orders) as they were. The reducer tests
  \<^verbatim>\<open>'positions' in data\<close> on every truthy payload: for the string payload "hello" the
  operator raises a TypeError and no snapshot is returned.
\<close>

theorem position_update_string_payload_raises:
  "processMessage rt tm s \<lparr>msg_type = JStr ''position_update'', msg_data = JStr ''hello''\<rparr>
     = Inl TypeError
   \<and> processMessage rt tm s \<lparr>msg_type = JStr ''order_update'', msg_data = JStr ''hello''\<rparr>
     = Inl TypeError"
  by (simp add: processMessage_def)

text \<open>
  What holds of the rest of that claim: a market_data message whose payload has no symbol
  property never raises and only sets lastMessageTime, and so does a position_update or
  order_update whose payload is falsy or an object without the property.
\<close>

lemma market_data_without_symbol_dropped:
  assumes "msg_type m = JStr ''market_data''"
    and "\<forall>ps. msg_data m = JObj ps \<longrightarrow> ''symbol'' \<notin> set (map fst ps)"
  shows "processMessage rt tm s m = Inr (s\<lparr>lastMessageTime := Some (new_Date tm)\<rparr>)"
  using assms by (cases "msg_data m") (simp_all add: processMessage_def Let_def)

lemma position_update_without_positions_dropped:
  assumes "msg_type m = JStr ''position_update''"
    and "\<not> truthy (msg_data m) \<or> (\<exists>ps. msg_data m = JObj ps \<and> ''positions'' \<notin> set (map fst ps))"
  shows "processMessage rt tm s m = Inr (s\<lparr>lastMessageTime := Some (new_Date tm)\<rparr>)"
  using assms by (cases "msg_data m") (auto simp add: processMessage_def Let_def)

lemma order_update_without_orders_dropped:
  assumes "msg_type m = JStr ''order_update''"
    and "\<not> truthy (msg_data m) \<or> (\<exists>ps. msg_data m = JObj ps \<and> ''orders'' \<notin> set (map fst ps))"
  shows "processMessage rt tm s m = Inr (s\<lparr>lastMessageTime := Some (new_Date tm)\<rparr>)"
  using assms by (cases "msg_data m") (auto simp add: processMessage_def Let_def)


lemma toString_examples:
  "toString rt (JArr [JStr ''a'', JNull, JArr [JStr ''b'', JBool True]]) = Inr ''a,,b,true''"
  "toString rt (JObj [(''bid'', JNum (Fin 1))]) = Inr ''[object Object]''"
  "toString rt (JObj [(''toString'', JNum (Fin 1))]) = Inl TypeError"
  "toString rt (JArr [JStr ''a'', JObj [(''toString'', JNull)]]) = Inl TypeError"
  "toNumber rt (JObj [(''toString'', JNum (Fin 1))]) = Inl TypeError"
  by simp_all

text \<open>When the reducer raises: the three places where a payload is used unguarded.\<close>

lemma processMessage_raises_iff:
  "processMessage rt tm s m = Inl TypeError \<longleftrightarrow>
     ((msg_type m = JStr ''position_update'' \<or> msg_type m = JStr ''order_update'')
        \<and> truthy (msg_data m) \<and> js_typeof (msg_data m) \<noteq> ''object'')
     \<or> (msg_type m = JStr ''market_data''
        \<and> (\<exists>ps. msg_data m = JObj ps \<and> ''symbol'' \<in> set (map fst ps)
               \<and> toString rt (js_get (JObj ps) ''symbol'') = Inl TypeError))
     \<or> (msg_type m = JStr ''pong''
        \<and> (\<exists>ps. msg_data m = JObj ps \<and> ''timestamp'' \<in> set (map fst ps)
               \<and> truthy (js_get (JObj ps) ''timestamp'')
               \<and> js_typeof (js_get (JObj ps) ''timestamp'') \<noteq> ''string''
               \<and> toNumber rt (js_get (JObj ps) ''timestamp'') = Inl TypeError))"
proof (cases "msg_data m")
  case (JObj ps)
  show ?thesis
  proof (cases "js_get (JObj ps) ''timestamp''")
    case (JStr t)
    with JObj show ?thesis
      by (auto simp add: processMessage_def Let_def split: if_splits sum.splits js_error.splits)
  qed (use JObj in \<open>auto simp add: processMessage_def Let_def
         split: if_splits sum.splits js_error.splits\<close>)
qed (auto simp add: processMessage_def Let_def split: if_splits sum.splits)

section \<open>The connection manager\<close>

lemmas hook_defs = run_def connect_def disconnect_def reconnect_def ws_onopen_def ws_onclose_def
  ws_onmessage_def clearAllTimers_def sendMessage_def subscribe_def unsubscribe_def dispatch_def
  startHeartbeat_def startLatencyMonitoring_def autoSubscribeToChannels_def socket_close_def
  ws_readyState_is_def initialHook_def Let_def

subsection \<open>Which operations touch the sockets\<close>

lemma sockets_dispatch [simp]: "sockets (dispatch a h) = sockets h"
  and ws_dispatch [simp]: "ws (dispatch a h) = ws h"
  by (simp_all add: dispatch_def)

lemma sockets_clearAllTimers [simp]: "sockets (clearAllTimers h) = sockets h"
  and ws_clearAllTimers [simp]: "ws (clearAllTimers h) = ws h"
  by (simp_all add: clearAllTimers_def)

lemma sockets_sendMessage [simp]: "sockets (sendMessage m h) = sockets h"
  and ws_sendMessage [simp]: "ws (sendMessage m h) = ws h"
  by (simp_all add: sendMessage_def split: option.splits)

lemma sockets_subscribe [simp]: "sockets (subscribe now c h) = sockets h"
  and ws_subscribe [simp]: "ws (subscribe now c h) = ws h"
  by (simp_all add: subscribe_def)

lemma sockets_unsubscribe [simp]: "sockets (unsubscribe now c h) = sockets h"
  and ws_unsubscribe [simp]: "ws (unsubscribe now c h) = ws h"
  by (simp_all add: unsubscribe_def)

lemma sockets_ws_onopen [simp]: "sockets (ws_onopen cfg h) = sockets h"
  and ws_ws_onopen [simp]: "ws (ws_onopen cfg h) = ws h"
  by (simp_all add: ws_onopen_def autoSubscribeToChannels_def startLatencyMonitoring_def
      startHeartbeat_def)

lemma sockets_ws_onmessage [simp]: "sockets (ws_onmessage cfg now frame h) = sockets h"
  and ws_ws_onmessage [simp]: "ws (ws_onmessage cfg now frame h) = ws h"
  by (simp_all add: ws_onmessage_def Let_def split: option.splits)

lemma sockets_ws_onclose [simp]: "sockets (ws_onclose cfg code reason rnd h) = sockets h"
  and ws_ws_onclose [simp]: "ws (ws_onclose cfg code reason rnd h) = ws h"
  by (simp_all add: ws_onclose_def Let_def)

lemma sockets_socket_close:
  "sockets (socket_close i h) =
     (if i < length (sockets h) \<and> live (sockets h ! i) then (sockets h)[i := CLOSING]
      else sockets h)"
  by (auto simp add: socket_close_def live_def)

lemma ws_socket_close [simp]: "ws (socket_close i h) = ws h"
  by (simp add: socket_close_def)

lemma ws_disconnect [simp]: "ws (disconnect h) = None"
  by (simp add: disconnect_def Let_def)

lemma sockets_disconnect:
  "sockets (disconnect h) =
     (case ws h of
        None \<Rightarrow> sockets h
      | Some i \<Rightarrow>
          sockets (socket_close i
            (clearAllTimers (h\<lparr>isManualClose := True, m_connectionAttempts := 0\<rparr>))))"
  by (simp add: disconnect_def Let_def split: option.splits)

subsection \<open>The invariant is kept by every operation\<close>

lemma owned_socket_close: "owned h \<Longrightarrow> owned (socket_close i h)"
  by (auto simp add: owned_def socket_close_def live_def nth_list_update)

lemma owned_update:
  assumes "owned h" and "i < length (sockets h)" and "live r \<longrightarrow> live (sockets h ! i)"
  shows "owned (h\<lparr>sockets := (sockets h)[i := r]\<rparr>)"
  using assms by (auto simp add: owned_def nth_list_update)

lemma owned_connect: "owned h \<Longrightarrow> owned (connect cfg h)"
proof -
  assume o: "owned h"
  show ?thesis
  proof (cases "ws_readyState_is h CONNECTING \<or> ws_readyState_is h OPEN
         \<or> m_connectionAttempts h > maxReconnectAttempts cfg")
    case True
    then show ?thesis using o by (simp add: connect_def)
  next
    case False
    have dead: "\<not> live (sockets h ! i)" if "i < length (sockets h)" for i
    proof
      assume l: "live (sockets h ! i)"
      with o that have "ws h = Some i" by (simp add: owned_def)
      with l that False show False by (auto simp add: ws_readyState_is_def live_def)
    qed
    show ?thesis using False dead
      by (auto simp add: connect_def Let_def owned_def nth_append)
  qed
qed

lemma owned_disconnect: "owned h \<Longrightarrow> owned (disconnect h)"
proof -
  assume o: "owned h"
  have "\<not> live (sockets (disconnect h) ! i)" if i: "i < length (sockets (disconnect h))" for i
  proof (cases "ws h")
    case None
    with i have "i < length (sockets h)" and "sockets (disconnect h) ! i = sockets h ! i"
      by (simp_all add: sockets_disconnect)
    with o None show ?thesis by (auto simp add: owned_def)
  next
    case (Some j)
    let ?h1 = "clearAllTimers (h\<lparr>isManualClose := True, m_connectionAttempts := 0\<rparr>)"
    have s1: "sockets ?h1 = sockets h" by simp
    have eq: "sockets (disconnect h) = sockets (socket_close j ?h1)"
      using Some by (simp add: sockets_disconnect)
    have len: "i < length (sockets h)"
      using i eq s1 by (simp add: sockets_socket_close split: if_splits)
    show ?thesis
    proof (cases "i = j")
      case True
      then show ?thesis using eq s1 len
        by (simp add: sockets_socket_close live_def)
    next
      case False
      with o Some len have "\<not> live (sockets h ! i)" by (auto simp add: owned_def)
      with False show ?thesis using eq s1 len
        by (simp add: sockets_socket_close)
    qed
  qed
  then show ?thesis by (simp add: owned_def)
qed

lemma owned_reconnect: "owned h \<Longrightarrow> owned (reconnect h)"
  using owned_disconnect [of h] by (simp add: reconnect_def Let_def owned_def)

lemma owned_step: "owned h \<Longrightarrow> owned (step cfg h e)"
proof (cases e)
  case Call_connect
  assume "owned h" with Call_connect show ?thesis by (simp add: owned_connect)
next
  case Call_disconnect
  assume "owned h" with Call_disconnect show ?thesis by (simp add: owned_disconnect)
next
  case Call_reconnect
  assume "owned h" with Call_reconnect show ?thesis by (simp add: owned_reconnect)
next
  case (Call_subscribe now c)
  assume "owned h" with Call_subscribe show ?thesis by (simp add: owned_def)
next
  case (Call_unsubscribe now c)
  assume "owned h" with Call_unsubscribe show ?thesis by (simp add: owned_def)
next
  case (Call_sendMessage m)
  assume "owned h" with Call_sendMessage show ?thesis by (simp add: owned_def)
next
  case (Socket_open i)
  assume o: "owned h"
  have "owned (h\<lparr>sockets := (sockets h)[i := OPEN]\<rparr>)"
    if "i < length (sockets h)" "sockets h ! i = CONNECTING"
    using owned_update [OF o that(1), of OPEN] that(2) by (simp add: live_def)
  then have "owned (ws_onopen cfg (h\<lparr>sockets := (sockets h)[i := OPEN]\<rparr>))"
    if "i < length (sockets h)" "sockets h ! i = CONNECTING"
    using that by (simp add: owned_def)
  with o Socket_open show ?thesis by simp
next
  case (Socket_message i now frame)
  assume "owned h" with Socket_message show ?thesis by (simp add: owned_def)
next
  case (Socket_close i code reason rnd)
  assume o: "owned h"
  have "owned (h\<lparr>sockets := (sockets h)[i := CLOSED]\<rparr>)" if "i < length (sockets h)"
    using owned_update [OF o that, of CLOSED] by (simp add: live_def)
  then have "owned (ws_onclose cfg code reason rnd (h\<lparr>sockets := (sockets h)[i := CLOSED]\<rparr>))"
    if "i < length (sockets h)"
    using that by (simp add: owned_def)
  with o Socket_close show ?thesis by simp
next
  case Timer_connection
  assume o: "owned h"
  have "owned (socket_close i (h\<lparr>timer_connection := None\<rparr>))" for i
    using o by (intro owned_socket_close) (simp add: owned_def)
  moreover have "owned (h\<lparr>timer_connection := None\<rparr>)" using o by (simp add: owned_def)
  ultimately show ?thesis using o Timer_connection by (simp add: Let_def split: option.splits)
next
  case Timer_reconnect
  assume o: "owned h"
  have "owned (connect cfg (dispatch RECONNECTING (h\<lparr>timer_reconnect := None\<rparr>)))"
    using o by (intro owned_connect) (simp add: owned_def)
  with o Timer_reconnect show ?thesis by (simp split: option.splits)
next
  case (Timer_heartbeat now)
  assume "owned h" with Timer_heartbeat show ?thesis by (simp add: owned_def)
next
  case (Timer_latencyCheck now)
  assume "owned h" with Timer_latencyCheck show ?thesis by (simp add: owned_def)
next
  case Timer_flush
  assume "owned h" with Timer_flush show ?thesis by (simp add: owned_def)
next
  case (Timer_subscribe now)
  assume "owned h" with Timer_subscribe show ?thesis by (simp add: owned_def split: list.splits)
next
  case Timer_connect
  assume o: "owned h"
  have "owned (connect cfg (h\<lparr>pending_connects := pending_connects h - 1\<rparr>))"
    using o by (intro owned_connect) (simp add: owned_def)
  with o Timer_connect show ?thesis by simp
qed

lemma owned_foldl: "owned h \<Longrightarrow> owned (foldl (step cfg) h evs)"
  by (induction evs arbitrary: h) (simp_all add: owned_step)

lemma owned_initial: "owned initialHook"
  by (simp add: owned_def initialHook_def)

lemma owned_run: "owned (run cfg initialHook evs)"
  unfolding run_def by (rule owned_foldl [OF owned_initial])

lemma at_most_one:
  assumes "distinct xs" and "\<And>x. x \<in> set xs \<Longrightarrow> P x" and "\<And>x y. P x \<Longrightarrow> P y \<Longrightarrow> x = y"
  shows "length xs \<le> 1"
proof (cases xs)
  case Nil
  then show ?thesis by simp
next
  case (Cons x ys)
  have "ys = []"
  proof (cases ys)
    case Nil
    then show ?thesis .
  next
    case (Cons y zs)
    with \<open>xs = x # ys\<close> assms(2) have "P x" "P y" by simp_all
    then have "x = y" by (rule assms(3))
    with Cons \<open>xs = x # ys\<close> assms(1) show ?thesis by simp
  qed
  with Cons show ?thesis by simp
qed

lemma owned_live_sockets: "owned h \<Longrightarrow> length (live_sockets h) \<le> 1"
proof (rule at_most_one [where P = "\<lambda>i. ws h = Some i"])
  show "distinct (live_sockets h)" by (simp add: live_sockets_def)
next
  fix x assume "owned h" "x \<in> set (live_sockets h)"
  then show "ws h = Some x" by (simp add: live_sockets_def owned_def)
next
  fix x y assume "ws h = Some x" "ws h = Some y"
  then show "x = y" by simp
qed

text \<open>
  C6. connect() leaves the hook as it is, creating no socket and changing no state, whenever
  the socket it owns is connecting or open or the attempt counter exceeds the configured
  maximum. Consequently, after any sequence of calls of connect, disconnect and reconnect
  (and of subscribe, unsubscribe and sendMessage), interleaved in any way with socket events
  and timers, at most one socket is connecting or open.
\<close>

theorem at_most_one_live_socket:
  "(ws_readyState_is h CONNECTING \<or> ws_readyState_is h OPEN
      \<or> m_connectionAttempts h > maxReconnectAttempts cfg \<longrightarrow> connect cfg h = h)
   \<and> length (live_sockets (run cfg initialHook evs)) \<le> 1"
  using owned_live_sockets [OF owned_run] by (simp add: connect_def)

theorem at_most_one_live_socket_witness:
  "ws_readyState_is connecting_hook CONNECTING
   \<and> connect example_config connecting_hook = connecting_hook
   \<and> length (live_sockets (run example_config initialHook
        [Call_connect, Call_reconnect, Timer_connect, Socket_open 1, Call_connect,
         Socket_close 0 1006 [] 0, Timer_reconnect])) \<le> 1"
proof -
  have h: "ws_readyState_is connecting_hook CONNECTING"
    by (simp add: connecting_hook_def hook_defs example_config_def)
  from at_most_one_live_socket [of connecting_hook example_config
      "[Call_connect, Call_reconnect, Timer_connect, Socket_open 1, Call_connect,
        Socket_close 0 1006 [] 0, Timer_reconnect]"] h
  show ?thesis by blast
qed


section \<open>Batching\<close>

lemma foldl_reduce_step_Inl: "foldl (reduce_step rt clk) (Inl e) kms = Inl e"
  by (induction kms) (simp_all add: reduce_step_def)

lemma forEach_is_foldl:
  "forEach_processMessage rt clk k s ms
     = foldl (reduce_step rt clk) (Inr s) (zip [k..<k + length ms] ms)"
proof (induction ms arbitrary: k s)
  case Nil
  then show ?case by simp
next
  case (Cons m ms)
  have z: "zip [k..<k + length (m # ms)] (m # ms) = (k, m) # zip [Suc k..<Suc k + length ms] ms"
    by (simp add: upt_conv_Cons del: upt_Suc)
  have r: "foldl (reduce_step rt clk) (Inr s) (zip [k..<k + length (m # ms)] (m # ms))
           = foldl (reduce_step rt clk) (processMessage rt (clk k) s m)
               (zip [Suc k..<Suc k + length ms] ms)"
    unfolding z by (simp add: reduce_step_def del: upt_Suc)
  show ?case
  proof (cases "processMessage rt (clk k) s m")
    case (Inl e)
    then show ?thesis
      unfolding r by (simp add: foldl_reduce_step_Inl del: upt_Suc)
  next
    case (Inr s')
    then show ?thesis
      unfolding r using Cons.IH [of "Suc k" s'] by (simp del: upt_Suc)
  qed
qed

lemma batch_update_is_sequential_fold:
  "reducer rt clk s (BATCH_UPDATE msgs) = sequential_fold rt clk s msgs"
  using forEach_is_foldl [of rt clk 0 s msgs] by (simp add: sequential_fold_def)

lemma batch_last_write_wins:
  "balance_of (reducer rt clk s (BATCH_UPDATE [account_update 100, account_update 200]))
     = JNum (Fin 200)"
  by (simp add: processMessage_def account_update_def balance_of_def)

lemma apply_actions_append:
  "apply_actions rt clks j s (as @ bs) =
     (case apply_actions rt clks j s as of
        Inl e \<Rightarrow> Inl e
      | Inr s' \<Rightarrow> apply_actions rt clks (j + length as) s' bs)"
  by (induction as arbitrary: j s) (simp_all split: sum.splits)

lemma onmessage_buffers_in_arrival_order:
  assumes "BATCH_UPDATES cfg" and "i < length (sockets h)"
    and "sockets h ! i = OPEN \<or> sockets h ! i = CLOSING" and "data_frame v"
  shows "if length (m_messageBuffer h @ [frame_message v]) \<ge> BUFFER_SIZE cfg
         then m_messageBuffer (step cfg h (Socket_message i now (Some v))) = []
            \<and> dispatched (step cfg h (Socket_message i now (Some v)))
               = dispatched h @ [BATCH_UPDATE (m_messageBuffer h @ [frame_message v])]
         else m_messageBuffer (step cfg h (Socket_message i now (Some v)))
               = m_messageBuffer h @ [frame_message v]
            \<and> dispatched (step cfg h (Socket_message i now (Some v))) = dispatched h"
  using assms
  by (auto simp add: ws_onmessage_def data_frame_def frame_message_def dispatch_def Let_def)

lemma timer_flush_dispatches_buffer:
  assumes "BATCH_UPDATES cfg" and "m_messageBuffer h \<noteq> []"
  shows "dispatched (step cfg h Timer_flush) = dispatched h @ [BATCH_UPDATE (m_messageBuffer h)]
       \<and> m_messageBuffer (step cfg h Timer_flush) = []"
  using assms by (simp add: dispatch_def)

lemma onclose_flushes_before_clearing:
  assumes "i < length (sockets h)" and "sockets h ! i \<noteq> CLOSED" and "m_messageBuffer h \<noteq> []"
  shows "dispatched (step cfg h (Socket_close i code reason rnd))
           = dispatched h @ [BATCH_UPDATE (m_messageBuffer h),
               DISCONNECTED (Some (if reason \<noteq> [] then reason else ''Connection lost''))]
       \<and> m_messageBuffer (step cfg h (Socket_close i code reason rnd)) = []"
  using assms by (simp add: ws_onclose_def clearAllTimers_def dispatch_def Let_def)

lemma snapshot_after_two_actions:
  assumes "dispatched h' = dispatched h @ [a, b]"
  shows "snapshot rt clks h' =
     (case snapshot rt clks h of
        Inl e \<Rightarrow> Inl e
      | Inr s0 \<Rightarrow>
          (case reducer rt (clks (length (dispatched h))) s0 a of
             Inl e \<Rightarrow> Inl e
           | Inr s1 \<Rightarrow> reducer rt (clks (Suc (length (dispatched h)))) s1 b))"
  unfolding snapshot_def assms
  by (simp add: apply_actions_append split: sum.splits)

text \<open>
  A call of \<^verbatim>\<open>disconnect()\<close> clears the snapshot without a flush and keeps the buffer; the
  buffer is flushed when the close event of the socket arrives.
\<close>

lemma disconnect_call_keeps_buffer:
  "m_messageBuffer (disconnect h) = m_messageBuffer h
   \<and> dispatched (disconnect h) = dispatched h @ [DISCONNECTED (Some ''Manually disconnected'')]"
  by (cases "ws h") (simp_all add: disconnect_def clearAllTimers_def dispatch_def
      socket_close_def Let_def)

lemma buffered_hook_eval:
  "m_messageBuffer buffered_hook = [account_update 100, account_update 200]"
  "sockets buffered_hook = [OPEN]"
  "dispatched buffered_hook = [CONNECTED]"
  by (simp_all add: buffered_hook_def hook_defs example_config_def account_frame_def
      account_update_def)

text \<open>
  What holds of the flush paths. The BATCH_UPDATE case of the reducer equals the
  left-to-right fold of the per-message reducer over the list of messages, so a batch of
  account_update(balance 100) then account_update(balance 200) leaves balance 200. The
  socket's message handler appends each data frame at the end of the buffer, and hands the
  whole buffer over when it has reached the configured size; the flush timer hands over the
  buffer as it is. When a socket closes with messages still in the buffer, the close handler
  dispatches the batch first and the DISCONNECTED action after it and empties the buffer.
\<close>

lemma flush_paths_in_arrival_order:
  "reducer rt clk s (BATCH_UPDATE msgs) = sequential_fold rt clk s msgs
   \<and> balance_of (reducer rt clk s (BATCH_UPDATE [account_update 100, account_update 200]))
       = JNum (Fin 200)
   \<and> (BATCH_UPDATES cfg \<and> i < length (sockets h)
        \<and> (sockets h ! i = OPEN \<or> sockets h ! i = CLOSING) \<and> data_frame v
      \<longrightarrow> (if length (m_messageBuffer h @ [frame_message v]) \<ge> BUFFER_SIZE cfg
           then m_messageBuffer (step cfg h (Socket_message i now (Some v))) = []
              \<and> dispatched (step cfg h (Socket_message i now (Some v)))
                 = dispatched h @ [BATCH_UPDATE (m_messageBuffer h @ [frame_message v])]
           else m_messageBuffer (step cfg h (Socket_message i now (Some v)))
                 = m_messageBuffer h @ [frame_message v]
              \<and> dispatched (step cfg h (Socket_message i now (Some v))) = dispatched h))
   \<and> (BATCH_UPDATES cfg \<and> m_messageBuffer h \<noteq> []
      \<longrightarrow> dispatched (step cfg h Timer_flush)
            = dispatched h @ [BATCH_UPDATE (m_messageBuffer h)]
        \<and> m_messageBuffer (step cfg h Timer_flush) = [])
   \<and> (i < length (sockets h) \<and> sockets h ! i \<noteq> CLOSED \<and> m_messageBuffer h \<noteq> []
      \<longrightarrow> dispatched (step cfg h (Socket_close i code reason rnd))
            = dispatched h @ [BATCH_UPDATE (m_messageBuffer h),
                DISCONNECTED (Some (if reason \<noteq> [] then reason else ''Connection lost''))]
        \<and> m_messageBuffer (step cfg h (Socket_close i code reason rnd)) = []
        \<and> snapshot rt clks (step cfg h (Socket_close i code reason rnd))
            = (case snapshot rt clks h of
                 Inl e \<Rightarrow> Inl e
               | Inr s0 \<Rightarrow>
                   (case reducer rt (clks (length (dispatched h))) s0
                           (BATCH_UPDATE (m_messageBuffer h)) of
                      Inl e \<Rightarrow> Inl e
                    | Inr s1 \<Rightarrow>
                        reducer rt (clks (Suc (length (dispatched h)))) s1
                          (DISCONNECTED
                            (Some (if reason \<noteq> [] then reason else ''Connection lost''))))))"
proof (intro conjI impI)
  show "reducer rt clk s (BATCH_UPDATE msgs) = sequential_fold rt clk s msgs"
    by (rule batch_update_is_sequential_fold)
next
  show "balance_of (reducer rt clk s (BATCH_UPDATE [account_update 100, account_update 200]))
       = JNum (Fin 200)"
    by (rule batch_last_write_wins)
next
  assume "BATCH_UPDATES cfg \<and> i < length (sockets h)
        \<and> (sockets h ! i = OPEN \<or> sockets h ! i = CLOSING) \<and> data_frame v"
  then show "if length (m_messageBuffer h @ [frame_message v]) \<ge> BUFFER_SIZE cfg
           then m_messageBuffer (step cfg h (Socket_message i now (Some v))) = []
              \<and> dispatched (step cfg h (Socket_message i now (Some v)))
                 = dispatched h @ [BATCH_UPDATE (m_messageBuffer h @ [frame_message v])]
           else m_messageBuffer (step cfg h (Socket_message i now (Some v)))
                 = m_messageBuffer h @ [frame_message v]
              \<and> dispatched (step cfg h (Socket_message i now (Some v))) = dispatched h"
    using onmessage_buffers_in_arrival_order [of cfg i h v now] by blast
next
  assume a: "BATCH_UPDATES cfg \<and> m_messageBuffer h \<noteq> []"
  then show "dispatched (step cfg h Timer_flush)
      = dispatched h @ [BATCH_UPDATE (m_messageBuffer h)]"
    using timer_flush_dispatches_buffer [of cfg h] by blast
  from a show "m_messageBuffer (step cfg h Timer_flush) = []"
    using timer_flush_dispatches_buffer [of cfg h] by blast
next
  assume a: "i < length (sockets h) \<and> sockets h ! i \<noteq> CLOSED \<and> m_messageBuffer h \<noteq> []"
  then have d: "dispatched (step cfg h (Socket_close i code reason rnd))
      = dispatched h @ [BATCH_UPDATE (m_messageBuffer h),
          DISCONNECTED (Some (if reason \<noteq> [] then reason else ''Connection lost''))]"
    using onclose_flushes_before_clearing [of i h cfg code reason rnd] by blast
  show "dispatched (step cfg h (Socket_close i code reason rnd))
      = dispatched h @ [BATCH_UPDATE (m_messageBuffer h),
          DISCONNECTED (Some (if reason \<noteq> [] then reason else ''Connection lost''))]"
    by (rule d)
  from a show "m_messageBuffer (step cfg h (Socket_close i code reason rnd)) = []"
    using onclose_flushes_before_clearing [of i h cfg code reason rnd] by blast
  show "snapshot rt clks (step cfg h (Socket_close i code reason rnd))
            = (case snapshot rt clks h of
                 Inl e \<Rightarrow> Inl e
               | Inr s0 \<Rightarrow>
                   (case reducer rt (clks (length (dispatched h))) s0
                           (BATCH_UPDATE (m_messageBuffer h)) of
                      Inl e \<Rightarrow> Inl e
                    | Inr s1 \<Rightarrow>
                        reducer rt (clks (Suc (length (dispatched h)))) s1
                          (DISCONNECTED
                            (Some (if reason \<noteq> [] then reason else ''Connection lost'')))))"
    by (rule snapshot_after_two_actions [OF d])
qed

lemma flush_paths_example:
  "BATCH_UPDATES example_config
   \<and> m_messageBuffer buffered_hook = [account_update 100, account_update 200]
   \<and> sockets buffered_hook ! 0 = OPEN
   \<and> dispatched (step example_config buffered_hook Timer_flush)
       = [CONNECTED, BATCH_UPDATE [account_update 100, account_update 200]]
   \<and> dispatched (step example_config buffered_hook (Socket_close 0 1006 [] 0))
       = [CONNECTED, BATCH_UPDATE [account_update 100, account_update 200],
          DISCONNECTED (Some ''Connection lost'')]
   \<and> m_messageBuffer (step example_config buffered_hook (Socket_close 0 1006 [] 0)) = []"
proof -
  have c: "BATCH_UPDATES example_config" by (simp add: example_config_def)
  have b: "m_messageBuffer buffered_hook = [account_update 100, account_update 200]"
    by (rule buffered_hook_eval)
  have o: "sockets buffered_hook ! 0 = OPEN" by (simp add: buffered_hook_eval)
  have h1: "BATCH_UPDATES example_config \<and> m_messageBuffer buffered_hook \<noteq> []"
    using c b by simp
  have h2: "0 < length (sockets buffered_hook) \<and> sockets buffered_hook ! 0 \<noteq> CLOSED
      \<and> m_messageBuffer buffered_hook \<noteq> []"
    using b by (simp add: buffered_hook_eval)
  note t = flush_paths_in_arrival_order
    [of example_runtime "\<lambda>k. example_timing" initialState "[]" example_config 0 buffered_hook
        JNull 0 1006 "[]" 0 "\<lambda>j k. example_timing"]
  from t h1 have f: "dispatched (step example_config buffered_hook Timer_flush)
      = dispatched buffered_hook @ [BATCH_UPDATE (m_messageBuffer buffered_hook)]"
    by blast
  from t h2 have g: "dispatched (step example_config buffered_hook (Socket_close 0 1006 [] 0))
      = dispatched buffered_hook @ [BATCH_UPDATE (m_messageBuffer buffered_hook),
          DISCONNECTED (Some (if [] \<noteq> ([]::string) then [] else ''Connection lost''))]"
    and e: "m_messageBuffer (step example_config buffered_hook (Socket_close 0 1006 [] 0)) = []"
    by blast+
  from c b o f g e show ?thesis by (simp add: buffered_hook_eval)
qed

text \<open>
  C5. The claim: a flush applies the buffered messages in arrival order, and on disconnect
  the messages still in the buffer are applied to the snapshot before it is cleared. The
  close handler of a socket does so, but \<^verbatim>\<open>disconnect()\<close>, which \<^verbatim>\<open>reconnect()\<close> calls,
  dispatches DISCONNECTED without a flush and leaves the buffer as it is. With account
  updates of balance 100 and 200 in the buffer, \<^verbatim>\<open>reconnect()\<close> clears the snapshot first and
  the next flush timer applies the batch to the cleared snapshot: the disconnected snapshot
  then shows the balance 200.
\<close>

theorem reconnect_clears_snapshot_before_flush:
  "dispatched (run example_config buffered_hook [Call_reconnect, Timer_flush])
     = [CONNECTED, DISCONNECTED (Some ''Manually disconnected''),
        BATCH_UPDATE [account_update 100, account_update 200]]
   \<and> snapshot example_runtime (\<lambda>j k. example_timing)
         (run example_config buffered_hook [Call_reconnect, Timer_flush])
     = Inr (initialState\<lparr>error := JStr ''Manually disconnected'',
              lastMessageTime := Some 1700000000000,
              accountData := JObj [(''balance'', JNum (Fin 200))]\<rparr>)"
  by (simp add: buffered_hook_def hook_defs example_config_def account_frame_def
      account_update_def snapshot_def processMessage_def initialState_def example_timing_def
      js_or_def)

section \<open>Reconnect delay\<close>

lemma onclose_arms_reconnect:
  assumes "\<not> isManualClose h" and "code \<noteq> 1000"
  shows "timer_reconnect (ws_onclose cfg code reason rnd h)
           = Some (min (reconnectDelay cfg * BACKOFF_FACTOR cfg ^ (m_connectionAttempts h + 1))
                       (MAX_DELAY cfg)
                   + (if JITTER cfg then rnd * 1000 else 0))
       \<and> m_connectionAttempts (ws_onclose cfg code reason rnd h) = m_connectionAttempts h + 1"
  using assms by (simp add: ws_onclose_def clearAllTimers_def dispatch_def Let_def)

lemma enhanced_delay_monotone:
  assumes "0 \<le> (base::rat)" and "1 \<le> (factor::rat)" and "n \<le> m"
  shows "min (base * factor ^ n) cap \<le> min (base * factor ^ m) cap"
proof -
  from assms(2,3) have "factor ^ n \<le> factor ^ m" by (rule power_increasing [rotated])
  with assms(1) have "base * factor ^ n \<le> base * factor ^ m" by (simp add: mult_left_mono)
  then show ?thesis by (rule min.mono) simp
qed

lemma reconnect_delay_basic_formula:
  "reconnect_delay_basic 2000 n = min (2000 * 2 ^ n) 30000"
  by (simp add: reconnect_delay_basic_def)

lemma reconnect_delay_basic_monotone:
  assumes "0 \<le> base" and "n \<le> m"
  shows "reconnect_delay_basic base n \<le> reconnect_delay_basic base m"
  unfolding reconnect_delay_basic_def using assms(1) _ assms(2)
  by (rule enhanced_delay_monotone) simp

lemma jitter_below_one_second:
  assumes "0 \<le> (rnd::rat)" and "rnd < 1"
  shows "0 \<le> rnd * 1000 \<and> rnd * 1000 < 1000"
  using assms by simp

text \<open>
  C3. The claim: at the unclean close of attempt n, counted from 0 at the first failure, with
  base delay 2000 ms, factor 2 and cap 30000 ms, the delay before jitter is
  min(2000 * 2^n, 30000), so 2000 ms at the first failure. The enhanced hook increments its
  attempt counter before it computes the delay: after the first unclean close (code 1006) of
  a connection the reconnect timer is armed with 4000 ms.
\<close>

theorem first_reconnect_delay_is_doubled:
  "timer_reconnect (run example_config initialHook
      [Call_connect, Socket_open 0, Socket_close 0 1006 [] 0]) = Some 4000"
  by (simp add: hook_defs example_config_def)

section \<open>Subscriptions across a reconnect\<close>

lemma onopen_subscribes_configured_channels_only:
  "pending_subscribes (ws_onopen cfg h)
     = pending_subscribes h @
         (if autoSubscribe cfg
          then [ACCOUNT_UPDATES cfg, POSITION_UPDATES cfg, ORDER_UPDATES cfg,
                CONNECTION_STATUS cfg]
          else [])
   \<and> sent (ws_onopen cfg h) = sent h"
  by (simp add: ws_onopen_def autoSubscribeToChannels_def startLatencyMonitoring_def
      startHeartbeat_def dispatch_def clearAllTimers_def)

text \<open>
  C2. The claim: a channel subscribed once is named by a subscribe message again after an
  unclean close and the opening of a new socket, without a new call of subscribe. The open
  handler subscribes to the four configured channels only and never reads
  subscribedChannels: in the session below "prices" is subscribed on the first socket, it is
  still in subscribedChannels after the reconnect, every timer of the new connection has
  fired, and the subscribe messages sent on the new socket name the four configured channels
  and not "prices".
\<close>

theorem subscription_not_replayed_after_reconnect:
  "sent_channels 0 (run example_config initialHook replay_trace)
     = [JStr ''account_updates'', JStr ''position_updates'', JStr ''order_updates'',
        JStr ''connection_status'', JStr ''prices'']
   \<and> sent_channels 1 (run example_config initialHook replay_trace)
     = [JStr ''account_updates'', JStr ''position_updates'', JStr ''order_updates'',
        JStr ''connection_status'']
   \<and> sockets (run example_config initialHook replay_trace) = [CLOSED, OPEN]
   \<and> pending_subscribes (run example_config initialHook replay_trace) = []
   \<and> ''prices'' \<in> subscribed_of (snapshot example_runtime (\<lambda>j k. example_timing)
        (run example_config initialHook replay_trace))"
  by (simp add: hook_defs example_config_def replay_trace_def sent_channels_def
      subscribed_of_def snapshot_def initialState_def)


end
